theory Spec2Isabelle
  imports Complex_Main
begin

section \<open>Data model\<close>

text \<open>
  The interactive diagram of \<^verbatim>\<open>src/components/main.jsx\<close> (component
  \<^verbatim>\<open>NokiaBusinessKnowledgeGraph\<close>) and of the schema-graph template
  \<^verbatim>\<open>src/components/frontend_template/kg_frontend_template.jsx\<close>
  (component \<^verbatim>\<open>SchemaGraph\<close>).

  Numbers that arrive from outside (stored position entries, pointer coordinates, wheel
  deltas) and the zoom scale are finite JavaScript numbers; they are idealised as
  \<^typ>\<open>real\<close>, so rounding and overflow are abstracted away. Where the source can
  produce a non-finite number (the edge geometry divides by a length; the viewport
  translation is computed from a value looked up in an object), the computation is carried
  out in the type \<open>jsnum\<close> below, which has \<open>NaN\<close> and the two infinities.
\<close>


section \<open>JavaScript numbers with non-finite values\<close>

text \<open>
  A finite number (idealised as a real), \<^verbatim>\<open>Infinity\<close>, \<^verbatim>\<open>-Infinity\<close> or
  \<^verbatim>\<open>NaN\<close>, with the IEEE 754 rules for the non-finite cases. The sign of zero is not
  modelled: a non-zero finite number divided by zero is taken to the infinity of the
  numerator's sign.
\<close>

datatype jsnum = Fin real | PosInf | NegInf | NaN

definition is_neg :: "jsnum \<Rightarrow> bool" where
  "is_neg a = (case a of Fin x \<Rightarrow> x < 0 | NegInf \<Rightarrow> True | _ \<Rightarrow> False)"

definition is_zero :: "jsnum \<Rightarrow> bool" where
  "is_zero a = (case a of Fin x \<Rightarrow> x = 0 | _ \<Rightarrow> False)"

definition signed_inf :: "bool \<Rightarrow> jsnum" where
  "signed_inf negative = (if negative then NegInf else PosInf)"

fun js_neg :: "jsnum \<Rightarrow> jsnum" where
  "js_neg (Fin x) = Fin (- x)"
| "js_neg PosInf = NegInf"
| "js_neg NegInf = PosInf"
| "js_neg NaN = NaN"

fun js_abs :: "jsnum \<Rightarrow> jsnum" where
  "js_abs (Fin x) = Fin \<bar>x\<bar>"
| "js_abs PosInf = PosInf"
| "js_abs NegInf = PosInf"
| "js_abs NaN = NaN"

fun js_sqrt :: "jsnum \<Rightarrow> jsnum" where
  "js_sqrt (Fin x) = (if x < 0 then NaN else Fin (sqrt x))"
| "js_sqrt PosInf = PosInf"
| "js_sqrt NegInf = NaN"
| "js_sqrt NaN = NaN"

fun js_add :: "jsnum \<Rightarrow> jsnum \<Rightarrow> jsnum" where
  "js_add NaN _ = NaN"
| "js_add _ NaN = NaN"
| "js_add (Fin x) (Fin y) = Fin (x + y)"
| "js_add PosInf NegInf = NaN"
| "js_add NegInf PosInf = NaN"
| "js_add PosInf _ = PosInf"
| "js_add _ PosInf = PosInf"
| "js_add NegInf _ = NegInf"
| "js_add _ NegInf = NegInf"

definition js_sub :: "jsnum \<Rightarrow> jsnum \<Rightarrow> jsnum" where
  "js_sub a b = js_add a (js_neg b)"

fun js_mul :: "jsnum \<Rightarrow> jsnum \<Rightarrow> jsnum" where
  "js_mul NaN _ = NaN"
| "js_mul _ NaN = NaN"
| "js_mul (Fin x) (Fin y) = Fin (x * y)"
| "js_mul a b = (if is_zero a \<or> is_zero b then NaN else signed_inf (is_neg a \<noteq> is_neg b))"

fun js_div :: "jsnum \<Rightarrow> jsnum \<Rightarrow> jsnum" where
  "js_div NaN _ = NaN"
| "js_div _ NaN = NaN"
| "js_div (Fin x) (Fin y) =
     (if y \<noteq> 0 then Fin (x / y) else if x = 0 then NaN else signed_inf (x < 0))"
| "js_div (Fin x) _ = Fin 0"
| "js_div a (Fin y) = signed_inf (is_neg a \<noteq> (y < 0))"
| "js_div _ _ = NaN"

text \<open>\<^verbatim>\<open>a || b\<close> on numbers: 0 and \<^verbatim>\<open>NaN\<close> are falsy.\<close>

definition js_or :: "jsnum \<Rightarrow> jsnum \<Rightarrow> jsnum" where
  "js_or a b = (if a = NaN \<or> is_zero a then b else a)"

definition is_nan :: "jsnum \<Rightarrow> bool" where
  "is_nan a = (a = NaN)"

section \<open>Records of the components' state\<close>

text \<open>A stored position entry \<^verbatim>\<open>{x, y}\<close>, and a pointer position on the screen.\<close>

record position =
  pos_x :: real
  pos_y :: real

text \<open>
  The viewport \<^verbatim>\<open>{x, y, scale}\<close>. The scale is only ever written by the clamped
  zoom operations and the reset, so it stays finite; \<open>x\<close> and \<open>y\<close> are computed
  from values read out of the positions object and can become \<^verbatim>\<open>NaN\<close>.
\<close>

record transform =
  t_x :: jsnum
  t_y :: jsnum
  t_scale :: real

text \<open>A point whose coordinates are computed numbers.\<close>

record jspoint =
  jx :: jsnum
  jy :: jsnum

record node =
  node_id :: string
  node_module :: string
  node_definition :: "string option"
  nodeType :: string

record relationship =
  rel_from :: string
  rel_to :: string
  rel_label :: string
  rel_type :: string

record data_flow =
  df_step :: int
  df_from :: string
  df_to :: string
  df_action :: string

text \<open>
  A scenario (journey). The source reads \<^verbatim>\<open>scenario.path?.length\<close> and
  \<^verbatim>\<open>activeScenario.dataFlow?.find\<close>, so both fields may be missing.
\<close>

record scenario =
  sc_id :: string
  sc_path :: "string list option"
  sc_dataFlow :: "data_flow list option"

record node_drag =
  mouseX :: real
  mouseY :: real
  nodeX :: real
  nodeY :: real

record toast_msg =
  toast_message :: string
  toast_type :: string

text \<open>The React state of \<^verbatim>\<open>NokiaBusinessKnowledgeGraph\<close> that the diagram engine uses.\<close>

record app_state =
  positions :: "string \<rightharpoonup> position"
  selectedNode :: "string option"
  hoveredNode :: "string option"
  transform :: transform
  isDragging :: bool
  dragStart :: jspoint
  activeScenario :: "scenario option"
  animationStep :: int
  isAnimating :: bool
  toast :: "toast_msg option"
  editingPositionNode :: "string option"
  editingPositionOriginal :: "position option"
  nodeDragStart :: "node_drag option"

datatype js_error = TypeError

text \<open>JavaScript truthiness of a value that is a string, \<^verbatim>\<open>null\<close> or \<^verbatim>\<open>undefined\<close>.\<close>

definition truthy :: "string option \<Rightarrow> bool" where
  "truthy v = (case v of None \<Rightarrow> False | Some s \<Rightarrow> s \<noteq> [])"

text \<open>
  \<^verbatim>\<open>arr[i]\<close>: \<^verbatim>\<open>undefined\<close> out of range. Used as a property key,
  \<^verbatim>\<open>undefined\<close> is the string \<^verbatim>\<open>"undefined"\<close>.
\<close>

definition js_index :: "'a list \<Rightarrow> int \<Rightarrow> 'a option" where
  "js_index xs i = (if 0 \<le> i \<and> i < int (length xs) then Some (xs ! nat i) else None)"

definition js_key :: "string option \<Rightarrow> string" where
  "js_key v = (case v of None \<Rightarrow> ''undefined'' | Some s \<Rightarrow> s)"

text \<open>
  \<^verbatim>\<open>obj[key]\<close> on a plain object (an object literal, a spread, the result of
  \<^verbatim>\<open>JSON.parse\<close>): an own entry wins; otherwise the lookup goes to
  \<^verbatim>\<open>Object.prototype\<close>, whose members are all truthy (functions, and the
  prototype object itself for \<^verbatim>\<open>__proto__\<close>) and have no \<^verbatim>\<open>x\<close>,
  \<^verbatim>\<open>y\<close> or \<^verbatim>\<open>nodeType\<close>; any other key gives \<^verbatim>\<open>undefined\<close>.
\<close>

definition object_prototype_members :: "string list" where
  "object_prototype_members =
     [''constructor'', ''__defineGetter__'', ''__defineSetter__'', ''hasOwnProperty'',
      ''__lookupGetter__'', ''__lookupSetter__'', ''isPrototypeOf'', ''propertyIsEnumerable'',
      ''toString'', ''valueOf'', ''__proto__'', ''toLocaleString'']"

datatype 'a js_prop = Undefined | Own 'a | Inherited

definition js_get :: "(string \<rightharpoonup> 'a) \<Rightarrow> string \<Rightarrow> 'a js_prop" where
  "js_get obj key =
     (case obj key of
        Some v \<Rightarrow> Own v
      | None \<Rightarrow> if key \<in> set object_prototype_members then Inherited else Undefined)"

text \<open>
  \<^verbatim>\<open>pos.x\<close> and \<^verbatim>\<open>pos.y\<close> of a truthy looked-up value: a number for a stored
  entry, \<^verbatim>\<open>undefined\<close> (here \<open>None\<close>) for an inherited member. In arithmetic
  \<^verbatim>\<open>undefined\<close> converts to \<^verbatim>\<open>NaN\<close>.
\<close>

definition prop_x :: "position js_prop \<Rightarrow> real option" where
  "prop_x v = (case v of Own p \<Rightarrow> Some (pos_x p) | _ \<Rightarrow> None)"

definition prop_y :: "position js_prop \<Rightarrow> real option" where
  "prop_y v = (case v of Own p \<Rightarrow> Some (pos_y p) | _ \<Rightarrow> None)"

definition to_number :: "real option \<Rightarrow> jsnum" where
  "to_number v = (case v of None \<Rightarrow> NaN | Some r \<Rightarrow> Fin r)"

section \<open>Viewport transform\<close>

text \<open>
  \<^verbatim>\<open>main.jsx\<close>, \<^verbatim>\<open>handleWheel\<close>: the factor is 0.9 or 1.1 by the sign of
  \<^verbatim>\<open>deltaY\<close>; only \<^verbatim>\<open>scale\<close> is written.
\<close>

definition handleWheel :: "real \<Rightarrow> app_state \<Rightarrow> app_state" where
  "handleWheel deltaY s =
     (let delta = (if deltaY > 0 then 0.9 else 1.1);
          newScale = max 0.15 (min 2 (t_scale (transform s) * delta))
      in s\<lparr>transform := (transform s)\<lparr>t_scale := newScale\<rparr>\<rparr>)"

text \<open>\<^verbatim>\<open>main.jsx\<close>, the zoom control buttons \<^verbatim>\<open>+\<close>, \<^verbatim>\<open>-\<close> and \<^verbatim>\<open>H\<close>.\<close>

definition zoomInButton :: "app_state \<Rightarrow> app_state" where
  "zoomInButton s = s\<lparr>transform := (transform s)\<lparr>t_scale := min 2 (t_scale (transform s) * 1.2)\<rparr>\<rparr>"

definition zoomOutButton :: "app_state \<Rightarrow> app_state" where
  "zoomOutButton s = s\<lparr>transform := (transform s)\<lparr>t_scale := max 0.15 (t_scale (transform s) / 1.2)\<rparr>\<rparr>"

definition homeButton :: "app_state \<Rightarrow> app_state" where
  "homeButton s = s\<lparr>transform := \<lparr>t_x = Fin 50, t_y = Fin 50, t_scale = 0.45\<rparr>\<rparr>"

datatype zoom_op = Wheel real | ZoomIn | ZoomOut | Home

fun apply_zoom :: "zoom_op \<Rightarrow> app_state \<Rightarrow> app_state" where
  "apply_zoom (Wheel deltaY) s = handleWheel deltaY s"
| "apply_zoom ZoomIn s = zoomInButton s"
| "apply_zoom ZoomOut s = zoomOutButton s"
| "apply_zoom Home s = homeButton s"

fun apply_zooms :: "zoom_op list \<Rightarrow> app_state \<Rightarrow> app_state" where
  "apply_zooms [] s = s"
| "apply_zooms (z # zs) s = apply_zooms zs (apply_zoom z s)"

text \<open>
  The graph layer is drawn with the style
  \<^verbatim>\<open>translate(x px, y px) scale(s)\<close> and origin \<^verbatim>\<open>0 0\<close>: a world point is
  scaled, then translated. \<open>screenToWorld\<close> is the inverse map.
\<close>

definition worldToScreen :: "transform \<Rightarrow> jspoint \<Rightarrow> jspoint" where
  "worldToScreen t p =
     \<lparr>jx = js_add (js_mul (jx p) (Fin (t_scale t))) (t_x t),
      jy = js_add (js_mul (jy p) (Fin (t_scale t))) (t_y t)\<rparr>"

definition screenToWorld :: "transform \<Rightarrow> jspoint \<Rightarrow> jspoint" where
  "screenToWorld t p =
     \<lparr>jx = js_div (js_sub (jx p) (t_x t)) (Fin (t_scale t)),
      jy = js_div (js_sub (jy p) (t_y t)) (Fin (t_scale t))\<rparr>"

text \<open>
  \<^verbatim>\<open>kg_frontend_template.jsx\<close>, \<^verbatim>\<open>handleWheel\<close>: with Ctrl or Meta held the wheel
  zooms about the pointer (\<open>mouse\<close> is the pointer relative to the SVG's bounding
  rectangle); otherwise it pans by the wheel deltas.
\<close>

definition tpl_handleWheel :: "bool \<Rightarrow> real \<Rightarrow> real \<Rightarrow> position \<Rightarrow> transform \<Rightarrow> transform" where
  "tpl_handleWheel ctrlOrMeta deltaX deltaY mouse t =
     (if ctrlOrMeta then
        (let delta = (if deltaY > 0 then 0.9 else 1.1);
             newScale = max 0.2 (min 2 (t_scale t * delta));
             ratio = js_div (Fin newScale) (Fin (t_scale t))
         in \<lparr>t_x = js_sub (Fin (pos_x mouse)) (js_mul (js_sub (Fin (pos_x mouse)) (t_x t)) ratio),
             t_y = js_sub (Fin (pos_y mouse)) (js_mul (js_sub (Fin (pos_y mouse)) (t_y t)) ratio),
             t_scale = newScale\<rparr>)
      else t\<lparr>t_x := js_sub (t_x t) (Fin deltaX), t_y := js_sub (t_y t) (Fin deltaY)\<rparr>)"

text \<open>The initial React state of \<^verbatim>\<open>main.jsx\<close> (the \<^verbatim>\<open>useState\<close> defaults).\<close>

definition initial_state :: app_state where
  "initial_state =
     \<lparr>positions = Map.empty, selectedNode = None, hoveredNode = None,
      transform = \<lparr>t_x = Fin 50, t_y = Fin 50, t_scale = 0.45\<rparr>,
      isDragging = False, dragStart = \<lparr>jx = Fin 0, jy = Fin 0\<rparr>,
      activeScenario = None, animationStep = -1, isAnimating = False, toast = None,
      editingPositionNode = None, editingPositionOriginal = None, nodeDragStart = None\<rparr>"

section \<open>Filtering\<close>

text \<open>
  \<^verbatim>\<open>toLowerCase\<close> on ASCII letters and \<^verbatim>\<open>String.prototype.includes\<close>
  (a contiguous substring test).
\<close>

definition lower_char :: "char \<Rightarrow> char" where
  "lower_char c =
     (let n = (of_char c :: nat) in if 65 \<le> n \<and> n \<le> 90 then char_of (n + 32) else c)"

definition toLowerCase :: "string \<Rightarrow> string" where
  "toLowerCase s = map lower_char s"

fun starts_with :: "string \<Rightarrow> string \<Rightarrow> bool" where
  "starts_with _ [] = True"
| "starts_with [] (_ # _) = False"
| "starts_with (c # cs) (d # ds) = (c = d \<and> starts_with cs ds)"

fun js_includes :: "string \<Rightarrow> string \<Rightarrow> bool" where
  "js_includes [] needle = (needle = [])"
| "js_includes (c # cs) needle = (starts_with (c # cs) needle \<or> js_includes cs needle)"

text \<open>
  The \<^verbatim>\<open>nodes\<close> object as its entries in insertion order:
  \<^verbatim>\<open>Object.values\<close>, \<^verbatim>\<open>Object.keys\<close> and the lookup \<^verbatim>\<open>nodes[id]\<close>.
\<close>

type_synonym nodes = "(string \<times> node) list"

definition Object_values :: "nodes \<Rightarrow> node list" where
  "Object_values ns = map snd ns"

definition Object_keys :: "nodes \<Rightarrow> string list" where
  "Object_keys ns = map fst ns"

definition matchesModule :: "string \<Rightarrow> node \<Rightarrow> bool" where
  "matchesModule selectedModule n = (selectedModule = ''all'' \<or> node_module n = selectedModule)"

definition matchesSearch :: "string \<Rightarrow> node \<Rightarrow> bool" where
  "matchesSearch searchTerm n =
     (searchTerm = [] \<or>
      js_includes (toLowerCase (node_id n)) (toLowerCase searchTerm) \<or>
      (case node_definition n of
         None \<Rightarrow> False
       | Some d \<Rightarrow> d \<noteq> [] \<and> js_includes (toLowerCase d) (toLowerCase searchTerm)))"

definition filteredNodes :: "nodes \<Rightarrow> string \<Rightarrow> string \<Rightarrow> node list" where
  "filteredNodes ns selectedModule searchTerm =
     filter (\<lambda>n. matchesModule selectedModule n \<and> matchesSearch searchTerm n) (Object_values ns)"

definition filteredRelationships :: "node list \<Rightarrow> bool \<Rightarrow> relationship list \<Rightarrow> relationship list" where
  "filteredRelationships fnodes showRelationships relationships =
     (if \<not> showRelationships then []
      else (let nodeIds = set (map node_id fnodes)
            in filter (\<lambda>rel. rel_from rel \<in> nodeIds \<and> rel_to rel \<in> nodeIds) relationships))"

section \<open>Scenario animation\<close>

text \<open>The scenario list button: \<^verbatim>\<open>setActiveScenario(scenario); setAnimationStep(-1); setIsAnimating(false)\<close>.\<close>

definition selectScenario :: "scenario \<Rightarrow> app_state \<Rightarrow> app_state" where
  "selectScenario sc s = s\<lparr>activeScenario := Some sc, animationStep := -1, isAnimating := False\<rparr>"

text \<open>\<^verbatim>\<open>scenario.path?.[i]\<close> and \<^verbatim>\<open>(scenario.path?.length || 0)\<close>.\<close>

definition path_at :: "scenario \<Rightarrow> int \<Rightarrow> string option" where
  "path_at sc i = (case sc_path sc of None \<Rightarrow> None | Some p \<Rightarrow> js_index p i)"

definition path_length :: "scenario \<Rightarrow> int" where
  "path_length sc = (case sc_path sc of None \<Rightarrow> 0 | Some p \<Rightarrow> int (length p))"

text \<open>
  The viewport that puts the looked-up point \<open>pos\<close> at the screen anchor (500, 350):
  \<^verbatim>\<open>x: -pos.x * t.scale + 500, y: -pos.y * t.scale + 350\<close>, the scale kept.
\<close>

definition recenter :: "position js_prop \<Rightarrow> transform \<Rightarrow> transform" where
  "recenter pos t =
     t\<lparr>t_x := js_add (js_mul (js_neg (to_number (prop_x pos))) (Fin (t_scale t))) (Fin 500),
       t_y := js_add (js_mul (js_neg (to_number (prop_y pos))) (Fin (t_scale t))) (Fin 350)\<rparr>"

definition startAnimation :: "scenario \<Rightarrow> app_state \<Rightarrow> app_state" where
  "startAnimation sc s =
     (let firstNode = path_at sc 0;
          pos = js_get (positions s) (js_key firstNode);
          s1 = s\<lparr>activeScenario := Some sc, animationStep := 0, isAnimating := True, selectedNode := None\<rparr>
      in if pos = Undefined then s1 else s1\<lparr>transform := recenter pos (transform s)\<rparr>)"

definition stopAnimation :: "app_state \<Rightarrow> app_state" where
  "stopAnimation s = s\<lparr>isAnimating := False, animationStep := -1\<rparr>"

definition resetStep :: "app_state \<Rightarrow> app_state" where
  "resetStep s = s\<lparr>animationStep := -1\<rparr>"

definition resetView :: "app_state \<Rightarrow> app_state" where
  "resetView s =
     s\<lparr>activeScenario := None, animationStep := -1, isAnimating := False,
       transform := \<lparr>t_x = Fin 50, t_y = Fin 50, t_scale = 0.45\<rparr>\<rparr>"

text \<open>
  One firing of the 1500 ms interval. The interval exists only while
  \<^verbatim>\<open>isAnimating && activeScenario\<close> (the effect's cleanup clears it), so in any
  other state a tick changes nothing. \<^verbatim>\<open>activeScenario.path[prev + 1]\<close> has no
  \<^verbatim>\<open>?.\<close>: on a scenario without a path it throws. The guard \<^verbatim>\<open>if (pos)\<close>
  tests the looked-up value for truthiness. The transform update that the source defers
  with \<^verbatim>\<open>requestAnimationFrame\<close> is applied within the tick.
\<close>

definition tick :: "app_state \<Rightarrow> js_error + app_state" where
  "tick s =
     (case activeScenario s of
        None \<Rightarrow> Inr s
      | Some sc \<Rightarrow>
          if \<not> isAnimating s then Inr s
          else (let prev = animationStep s in
            if prev \<ge> path_length sc - 1 then Inr (s\<lparr>isAnimating := False\<rparr>)
            else (case sc_path sc of
                    None \<Rightarrow> Inl TypeError
                  | Some p \<Rightarrow>
                      (let nextNode = js_index p (prev + 1);
                           pos = js_get (positions s) (js_key nextNode)
                       in if pos = Undefined then Inr (s\<lparr>animationStep := prev + 1\<rparr>)
                          else Inr (s\<lparr>animationStep := prev + 1,
                                      transform := recenter pos (transform s)\<rparr>)))))"

fun ticks :: "nat \<Rightarrow> app_state \<Rightarrow> js_error + app_state" where
  "ticks 0 s = Inr s"
| "ticks (Suc n) s = (case tick s of Inl e \<Rightarrow> Inl e | Inr s' \<Rightarrow> ticks n s')"

definition isNodeInPath :: "app_state \<Rightarrow> string \<Rightarrow> bool" where
  "isNodeInPath s nodeId =
     (case activeScenario s of
        None \<Rightarrow> False
      | Some sc \<Rightarrow> (case sc_path sc of None \<Rightarrow> False | Some p \<Rightarrow> nodeId \<in> set p))"

definition isNodeCurrent :: "app_state \<Rightarrow> string \<Rightarrow> bool" where
  "isNodeCurrent s nodeId =
     (case activeScenario s of
        None \<Rightarrow> False
      | Some sc \<Rightarrow> animationStep s \<ge> 0 \<and> path_at sc (animationStep s) = Some nodeId)"

text \<open>\<^verbatim>\<open>Array.prototype.indexOf\<close>: the first index of the element, or -1.\<close>

fun indexOf :: "'a list \<Rightarrow> 'a \<Rightarrow> int" where
  "indexOf [] y = -1"
| "indexOf (x # xs) y = (if x = y then 0 else (let i = indexOf xs y in if i < 0 then -1 else i + 1))"

definition isNodeVisited :: "app_state \<Rightarrow> string \<Rightarrow> bool" where
  "isNodeVisited s nodeId =
     (case activeScenario s of
        None \<Rightarrow> False
      | Some sc \<Rightarrow>
          if animationStep s < 0 then False
          else (let idx = (case sc_path sc of None \<Rightarrow> -1 | Some p \<Rightarrow> indexOf p nodeId)
                in idx \<ge> 0 \<and> idx < animationStep s))"

fun consecutive_match :: "string list \<Rightarrow> string \<Rightarrow> string \<Rightarrow> bool" where
  "consecutive_match (a # b # rest) from to =
     ((a = from \<and> b = to) \<or> (a = to \<and> b = from) \<or> consecutive_match (b # rest) from to)"
| "consecutive_match _ from to = False"

definition isEdgeInPath :: "app_state \<Rightarrow> string \<Rightarrow> string \<Rightarrow> bool" where
  "isEdgeInPath s from to =
     (case activeScenario s of
        None \<Rightarrow> False
      | Some sc \<Rightarrow> (case sc_path sc of None \<Rightarrow> False | Some p \<Rightarrow> consecutive_match p from to))"

definition isEdgeActive :: "app_state \<Rightarrow> string \<Rightarrow> string \<Rightarrow> bool" where
  "isEdgeActive s from to =
     (case activeScenario s of
        None \<Rightarrow> False
      | Some sc \<Rightarrow>
          if animationStep s < 0 \<or> animationStep s \<ge> path_length sc - 1 then False
          else (let current = path_at sc (animationStep s);
                    next = path_at sc (animationStep s + 1)
                in (Some from = current \<and> Some to = next) \<or> (Some to = current \<and> Some from = next)))"

definition currentDataFlow :: "app_state \<Rightarrow> data_flow option" where
  "currentDataFlow s =
     (case activeScenario s of
        None \<Rightarrow> None
      | Some sc \<Rightarrow>
          if animationStep s < 0 then None
          else (case sc_dataFlow sc of
                  None \<Rightarrow> None
                | Some dfs \<Rightarrow> find (\<lambda>df. df_step df = animationStep s + 1) dfs))"

section \<open>Position editing and mouse handlers\<close>

text \<open>
  \<^verbatim>\<open>startEditPosition\<close> and \<^verbatim>\<open>handleNodeDragStart\<close> copy the coordinates of
  the looked-up position into the state. Position records carry numbers, so these two are
  given on the stored entries of the positions map: an entry, or none. For a node id
  without a stored entry that names a member of \<^verbatim>\<open>Object.prototype\<close> the source
  copies \<^verbatim>\<open>undefined\<close> coordinates; that case is not represented.
\<close>

definition startEditPosition :: "string \<Rightarrow> app_state \<Rightarrow> app_state" where
  "startEditPosition nodeId s =
     (let s1 = (case positions s nodeId of
                  None \<Rightarrow> s
                | Some pos \<Rightarrow> s\<lparr>editingPositionOriginal := Some pos\<rparr>)
      in s1\<lparr>editingPositionNode := Some nodeId, nodeDragStart := None\<rparr>)"

text \<open>The three setters that end an edit session.\<close>

definition clearEditSession :: "app_state \<Rightarrow> app_state" where
  "clearEditSession s =
     s\<lparr>editingPositionNode := None, editingPositionOriginal := None, nodeDragStart := None\<rparr>"

text \<open>
  \<^verbatim>\<open>if (editingPositionNode && editingPositionOriginal) setPositions(...)\<close>: the
  revert shared by cancel and by the \<^verbatim>\<open>catch\<close> branch of save.
\<close>

definition revertPosition :: "app_state \<Rightarrow> app_state" where
  "revertPosition s =
     (case editingPositionNode s of
        None \<Rightarrow> s
      | Some nodeId \<Rightarrow>
          (case editingPositionOriginal s of
             None \<Rightarrow> s
           | Some orig \<Rightarrow>
               if nodeId \<noteq> [] then s\<lparr>positions := (positions s)(nodeId \<mapsto> orig)\<rparr> else s))"

definition cancelEditPosition :: "app_state \<Rightarrow> app_state" where
  "cancelEditPosition s = clearEditSession (revertPosition s)"

text \<open>
  The outcome of the awaited \<^verbatim>\<open>apiFetch\<close> (a \<^verbatim>\<open>PUT\<close> of the position): it
  resolves, or throws an \<^verbatim>\<open>Error\<close> with a message.
\<close>

datatype api_result = ApiOk | ApiError string

definition saveEditPosition :: "api_result \<Rightarrow> app_state \<Rightarrow> app_state" where
  "saveEditPosition res s =
     (case editingPositionNode s of
        None \<Rightarrow> s
      | Some nodeId \<Rightarrow>
          if nodeId = [] then s
          else (case js_get (positions s) nodeId of
                  Undefined \<Rightarrow> s
                | _ \<Rightarrow>
                    (case res of
                       ApiOk \<Rightarrow>
                         clearEditSession
                           (s\<lparr>toast := Some \<lparr>toast_message = ''Position for \"'' @ nodeId @ ''\" saved'',
                                               toast_type = ''success''\<rparr>\<rparr>)
                     | ApiError msg \<Rightarrow>
                         clearEditSession
                           (revertPosition
                              (s\<lparr>toast := Some \<lparr>toast_message = ''Failed to save position: '' @ msg,
                                                  toast_type = ''error''\<rparr>\<rparr>)))))"

text \<open>
  \<^verbatim>\<open>handleNodeDragStart\<close> reads \<^verbatim>\<open>pos.x\<close> without a guard: it throws when the
  node being edited has no position.
\<close>

definition handleNodeDragStart :: "real \<Rightarrow> real \<Rightarrow> string \<Rightarrow> app_state \<Rightarrow> js_error + app_state" where
  "handleNodeDragStart clientX clientY nodeId s =
     (if editingPositionNode s \<noteq> Some nodeId then Inr s
      else (case positions s nodeId of
              None \<Rightarrow> Inl TypeError
            | Some pos \<Rightarrow>
                Inr (s\<lparr>nodeDragStart := Some \<lparr>mouseX = clientX, mouseY = clientY,
                                                nodeX = pos_x pos, nodeY = pos_y pos\<rparr>\<rparr>)))"

definition handleNodeDragMove :: "real \<Rightarrow> real \<Rightarrow> app_state \<Rightarrow> app_state" where
  "handleNodeDragMove clientX clientY s =
     (case nodeDragStart s of
        None \<Rightarrow> s
      | Some ds \<Rightarrow>
          (case editingPositionNode s of
             None \<Rightarrow> s
           | Some nodeId \<Rightarrow>
               if nodeId = [] then s
               else (let dx = (clientX - mouseX ds) / t_scale (transform s);
                         dy = (clientY - mouseY ds) / t_scale (transform s)
                     in s\<lparr>positions := (positions s)(nodeId \<mapsto> \<lparr>pos_x = nodeX ds + dx, pos_y = nodeY ds + dy\<rparr>)\<rparr>)))"

definition handleNodeDragEnd :: "app_state \<Rightarrow> app_state" where
  "handleNodeDragEnd s = s\<lparr>nodeDragStart := None\<rparr>"

text \<open>\<open>onBackground\<close>: the event target is the SVG element or a \<^verbatim>\<open>rect\<close>.\<close>

definition handleMouseDown :: "bool \<Rightarrow> real \<Rightarrow> real \<Rightarrow> app_state \<Rightarrow> app_state" where
  "handleMouseDown onBackground clientX clientY s =
     (if nodeDragStart s \<noteq> None then s
      else if onBackground then
        s\<lparr>isDragging := True,
          dragStart := \<lparr>jx = js_sub (Fin clientX) (t_x (transform s)),
                         jy = js_sub (Fin clientY) (t_y (transform s))\<rparr>\<rparr>
      else s)"

definition handleMouseMove :: "real \<Rightarrow> real \<Rightarrow> app_state \<Rightarrow> app_state" where
  "handleMouseMove clientX clientY s =
     (if nodeDragStart s \<noteq> None \<and> truthy (editingPositionNode s) then handleNodeDragMove clientX clientY s
      else if isDragging s then
        s\<lparr>transform := (transform s)\<lparr>t_x := js_sub (Fin clientX) (jx (dragStart s)),
                                        t_y := js_sub (Fin clientY) (jy (dragStart s))\<rparr>\<rparr>
      else s)"

definition handleMouseUp :: "app_state \<Rightarrow> app_state" where
  "handleMouseUp s = (if nodeDragStart s \<noteq> None then handleNodeDragEnd s else s\<lparr>isDragging := False\<rparr>)"

text \<open>
  One drag gesture on a node in position-edit mode: the \<^verbatim>\<open>Move Position\<close> button,
  mouse down on the node at \<open>(mx, my)\<close>, one mouse move to \<open>(mx + dx, my + dy)\<close>, mouse up.
\<close>

definition dragNodeBy :: "string \<Rightarrow> real \<Rightarrow> real \<Rightarrow> real \<Rightarrow> real \<Rightarrow> app_state \<Rightarrow> js_error + app_state" where
  "dragNodeBy nodeId mx my dx dy s =
     (case handleNodeDragStart mx my nodeId (startEditPosition nodeId s) of
        Inl e \<Rightarrow> Inl e
      | Inr s1 \<Rightarrow> Inr (handleMouseUp (handleMouseMove (mx + dx) (my + dy) s1)))"

section \<open>Edge and node rendering\<close>

text \<open>
  What \<^verbatim>\<open>main.jsx\<close> computes for one relationship inside
  \<^verbatim>\<open>filteredRelationships.map\<close>: the unit direction \<open>(dx / len, dy / len)\<close>, the
  trimmed end points of the line and the label position. \<open>None\<close> is the
  \<^verbatim>\<open>return null\<close> of the position guard \<^verbatim>\<open>if (!fromPos || !toPos)\<close>,
  which tests the looked-up values for truthiness. \<^verbatim>\<open>fromNode?.nodeType\<close> of an
  inherited member is \<^verbatim>\<open>undefined\<close>, as for a missing node.
\<close>

record edge_geometry =
  dirX :: jsnum
  dirY :: jsnum
  startX :: jsnum
  startY :: jsnum
  endX :: jsnum
  endY :: jsnum
  labelX :: jsnum
  labelY :: jsnum

definition edgeOffset :: "node js_prop \<Rightarrow> jsnum" where
  "edgeOffset n =
     (case n of
        Own nd \<Rightarrow> if nodeType nd = ''decision'' then Fin 38 else if nodeType nd = ''kpi'' then Fin 30 else Fin 35
      | _ \<Rightarrow> Fin 35)"

definition renderEdge :: "(string \<rightharpoonup> position) \<Rightarrow> nodes \<Rightarrow> relationship \<Rightarrow> edge_geometry option" where
  "renderEdge poss ns rel =
     (let fromPos = js_get poss (rel_from rel);
          toPos = js_get poss (rel_to rel)
      in if fromPos = Undefined \<or> toPos = Undefined then None
         else (let fromX = to_number (prop_x fromPos); fromY = to_number (prop_y fromPos);
                   toX = to_number (prop_x toPos); toY = to_number (prop_y toPos);
                   dx = js_sub toX fromX;
                   dy = js_sub toY fromY;
                   len = js_or (js_sqrt (js_add (js_mul dx dx) (js_mul dy dy))) (Fin 1);
                   fromOffset = edgeOffset (js_get (map_of ns) (rel_from rel));
                   toOffset = edgeOffset (js_get (map_of ns) (rel_to rel));
                   sx = js_add fromX (js_mul (js_div dx len) fromOffset);
                   sy = js_add fromY (js_mul (js_div dy len) fromOffset);
                   ex = js_sub toX (js_mul (js_div dx len) toOffset);
                   ey = js_sub toY (js_mul (js_div dy len) toOffset)
               in Some \<lparr>dirX = js_div dx len, dirY = js_div dy len,
                        startX = sx, startY = sy, endX = ex, endY = ey,
                        labelX = js_div (js_add sx ex) (Fin 2),
                        labelY = js_sub (js_div (js_add sy ey) (Fin 2)) (Fin 8)\<rparr>))"

definition geometry_has_nan :: "edge_geometry \<Rightarrow> bool" where
  "geometry_has_nan g =
     (is_nan (dirX g) \<or> is_nan (dirY g) \<or> is_nan (startX g) \<or> is_nan (startY g) \<or>
      is_nan (endX g) \<or> is_nan (endY g) \<or> is_nan (labelX g) \<or> is_nan (labelY g))"

text \<open>
  What \<^verbatim>\<open>main.jsx\<close> computes for one node inside \<^verbatim>\<open>filteredNodes.map\<close>
  before it draws the shape: the translation of the group and the flags. The translation
  is the text \<^verbatim>\<open>translate(${pos.x}, ${pos.y})\<close>; a coordinate \<open>None\<close> is printed
  as \<^verbatim>\<open>undefined\<close>. Colours, stroke widths and opacities are styling and are left out,
  here and for the edges.
\<close>

record node_view =
  translateX :: "real option"
  translateY :: "real option"
  isSelected :: bool
  isHovered :: bool
  isConnected :: bool
  inPath :: bool
  isCurrent :: bool
  isEditingPos :: bool

definition renderNode :: "app_state \<Rightarrow> relationship list \<Rightarrow> node \<Rightarrow> node_view option" where
  "renderNode s relationships n =
     (let pos = js_get (positions s) (node_id n) in
      if pos = Undefined then None
      else
          Some \<lparr>translateX = prop_x pos, translateY = prop_y pos,
                isSelected = (selectedNode s = Some (node_id n)),
                isHovered = (hoveredNode s = Some (node_id n)),
                isConnected =
                  (case selectedNode s of
                     None \<Rightarrow> False
                   | Some sel \<Rightarrow>
                       sel \<noteq> [] \<and>
                       list_ex (\<lambda>r. (rel_from r = sel \<and> rel_to r = node_id n) \<or>
                                     (rel_to r = sel \<and> rel_from r = node_id n)) relationships),
                inPath = isNodeInPath s (node_id n),
                isCurrent = isNodeCurrent s (node_id n),
                isEditingPos = (editingPositionNode s = Some (node_id n))\<rparr>)"

text \<open>
  The template, \<^verbatim>\<open>nodePositions\<close>: every key of \<^verbatim>\<open>nodes\<close> without a stored
  position gets the next slot of a grid that starts at \<^verbatim>\<open>DEFAULT_CENTER\<close> = (800, 500).
\<close>

fun fillPositions :: "string list \<Rightarrow> real \<Rightarrow> real \<Rightarrow> (string \<rightharpoonup> position) \<Rightarrow> (string \<rightharpoonup> position)" where
  "fillPositions [] nextX nextY computed = computed"
| "fillPositions (nodeId # rest) nextX nextY computed =
     (case js_get computed nodeId of
        Own _ \<Rightarrow> fillPositions rest nextX nextY computed
      | Inherited \<Rightarrow> fillPositions rest nextX nextY computed
      | Undefined \<Rightarrow>
          (let computed' = computed(nodeId \<mapsto> \<lparr>pos_x = nextX, pos_y = nextY\<rparr>);
               nextX' = nextX + 150
           in if nextX' > 1800 then fillPositions rest 800 (nextY + 120) computed'
              else fillPositions rest nextX' nextY computed'))"

definition nodePositions :: "nodes \<Rightarrow> (string \<rightharpoonup> position) \<Rightarrow> (string \<rightharpoonup> position)" where
  "nodePositions ns poss = fillPositions (Object_keys ns) 800 500 poss"

text \<open>
  The template's edge: a quadratic curve from \<open>startPoint\<close> to \<open>endPoint\<close> with the
  control point moved along the normal by the rank of the edge among its parallel edges.
  The edge is given by its index in \<^verbatim>\<open>filteredRelationships\<close>;
  \<^verbatim>\<open>parallelEdges.indexOf(rel)\<close> compares object identity, so it is the number of
  parallel edges before that index.
\<close>

record curve_geometry =
  ctrlX :: jsnum
  ctrlY :: jsnum
  startPointX :: jsnum
  startPointY :: jsnum
  endPointX :: jsnum
  endPointY :: jsnum

definition isParallel :: "relationship \<Rightarrow> relationship \<Rightarrow> bool" where
  "isParallel rel r =
     ((rel_from r = rel_from rel \<and> rel_to r = rel_to rel) \<or>
      (rel_from r = rel_to rel \<and> rel_to r = rel_from rel))"

definition tpl_anchorOffset :: "node js_prop \<Rightarrow> jsnum \<Rightarrow> jsnum \<Rightarrow> jsnum" where
  "tpl_anchorOffset n ux uy =
     (case n of
        Own nd \<Rightarrow>
          if nodeType nd = ''kpi'' then js_div (Fin 24) (js_add (js_abs ux) (js_abs uy)) else Fin 28
      | _ \<Rightarrow> Fin 28)"

definition tpl_renderEdge :: "(string \<rightharpoonup> position) \<Rightarrow> nodes \<Rightarrow> relationship list \<Rightarrow> nat \<Rightarrow> curve_geometry option" where
  "tpl_renderEdge nodePoss ns frels index =
     (let rel = frels ! index;
          fromPos = js_get nodePoss (rel_from rel);
          toPos = js_get nodePoss (rel_to rel)
      in if fromPos = Undefined \<or> toPos = Undefined then None
         else (let fromX = to_number (prop_x fromPos); fromY = to_number (prop_y fromPos);
                   toX = to_number (prop_x toPos); toY = to_number (prop_y toPos);
                   parallelEdges = filter (isParallel rel) frels;
                   edgeIndex = length (filter (isParallel rel) (take index frels));
                   offset = Fin ((real edgeIndex - (real (length parallelEdges) - 1) / 2) * 20);
                   dx = js_sub toX fromX;
                   dy = js_sub toY fromY;
                   len = js_sqrt (js_add (js_mul dx dx) (js_mul dy dy));
                   nx = js_div (js_neg dy) len;
                   ny = js_div dx len;
                   cx = js_add (js_div (js_add fromX toX) (Fin 2)) (js_mul nx offset);
                   cy = js_add (js_div (js_add fromY toY) (Fin 2)) (js_mul ny offset);
                   fromDist = js_sqrt (js_add (js_mul dx dx) (js_mul dy dy));
                   fromNx = js_div dx fromDist;
                   fromNy = js_div dy fromDist;
                   fromOffset = tpl_anchorOffset (js_get (map_of ns) (rel_from rel)) fromNx fromNy;
                   toDx = js_sub fromX toX;
                   toDy = js_sub fromY toY;
                   toDist = js_sqrt (js_add (js_mul toDx toDx) (js_mul toDy toDy));
                   toNx = js_div toDx toDist;
                   toNy = js_div toDy toDist;
                   toOffset = tpl_anchorOffset (js_get (map_of ns) (rel_to rel)) toNx toNy
               in Some \<lparr>ctrlX = cx, ctrlY = cy,
                        startPointX = js_add fromX (js_mul fromNx fromOffset),
                        startPointY = js_add fromY (js_mul fromNy fromOffset),
                        endPointX = js_add toX (js_mul toNx toOffset),
                        endPointY = js_add toY (js_mul toNy toOffset)\<rparr>))"

definition curve_has_nan :: "curve_geometry \<Rightarrow> bool" where
  "curve_has_nan g =
     (is_nan (ctrlX g) \<or> is_nan (ctrlY g) \<or> is_nan (startPointX g) \<or> is_nan (startPointY g) \<or>
      is_nan (endPointX g) \<or> is_nan (endPointY g))"

section \<open>Example inputs\<close>

text \<open>A scenario over three nodes, a scenario with an empty path, and a two-node graph.\<close>

definition abc_scenario :: scenario where
  "abc_scenario =
     \<lparr>sc_id = ''abc'', sc_path = Some [''A'', ''B'', ''C''],
      sc_dataFlow = Some [\<lparr>df_step = 1, df_from = ''A'', df_to = ''B'', df_action = []\<rparr>,
                          \<lparr>df_step = 2, df_from = ''B'', df_to = ''C'', df_action = []\<rparr>]\<rparr>"

definition empty_scenario :: scenario where
  "empty_scenario = \<lparr>sc_id = ''empty'', sc_path = Some [], sc_dataFlow = Some []\<rparr>"

text \<open>
  A journey whose second path entry, and a node whose id, is the name of a member of
  \<^verbatim>\<open>Object.prototype\<close>; neither has a stored position.
\<close>

definition ctor_scenario :: scenario where
  "ctor_scenario = \<lparr>sc_id = ''ctor'', sc_path = Some [''A'', ''constructor''], sc_dataFlow = Some []\<rparr>"

definition node_ctor :: node where
  "node_ctor = \<lparr>node_id = ''constructor'', node_module = ''core'', node_definition = None, nodeType = ''core''\<rparr>"

definition rel_A_ctor :: relationship where
  "rel_A_ctor = \<lparr>rel_from = ''A'', rel_to = ''constructor'', rel_label = ''HAS'', rel_type = ''1-to-many''\<rparr>"

definition node_A :: node where
  "node_A = \<lparr>node_id = ''A'', node_module = ''core'', node_definition = Some ''first'', nodeType = ''core''\<rparr>"

definition node_B :: node where
  "node_B = \<lparr>node_id = ''B'', node_module = ''core'', node_definition = None, nodeType = ''kpi''\<rparr>"

definition ex_nodes :: nodes where
  "ex_nodes = [(''A'', node_A), (''B'', node_B)]"

definition ctor_nodes :: nodes where
  "ctor_nodes = [(''A'', node_A), (''constructor'', node_ctor)]"

definition rel_AB :: relationship where
  "rel_AB = \<lparr>rel_from = ''A'', rel_to = ''B'', rel_label = ''HAS'', rel_type = ''1-to-many''\<rparr>"

definition rel_AC :: relationship where
  "rel_AC = \<lparr>rel_from = ''A'', rel_to = ''C'', rel_label = ''HAS'', rel_type = ''1-to-many''\<rparr>"

text \<open>Two nodes at the same point, the template's \<^verbatim>\<open>DEFAULT_CENTER\<close>.\<close>

definition coincident_positions :: "string \<rightharpoonup> position" where
  "coincident_positions =
     [''A'' \<mapsto> \<lparr>pos_x = 800, pos_y = 500\<rparr>, ''B'' \<mapsto> \<lparr>pos_x = 800, pos_y = 500\<rparr>]"

definition only_A_positioned :: "string \<rightharpoonup> position" where
  "only_A_positioned = [''A'' \<mapsto> \<lparr>pos_x = 100, pos_y = 200\<rparr>]"

section \<open>Scale clamping\<close>

lemma apply_zoom_scale_range:
  assumes "0.15 \<le> t_scale (transform s)" and "t_scale (transform s) \<le> 2"
  shows "0.15 \<le> t_scale (transform (apply_zoom z s)) \<and> t_scale (transform (apply_zoom z s)) \<le> 2"
proof (cases z)
  case (Wheel d)
  then show ?thesis by (simp add: handleWheel_def Let_def)
next
  case ZoomIn
  with assms show ?thesis by (simp add: zoomInButton_def min_def)
next
  case ZoomOut
  with assms show ?thesis by (simp add: zoomOutButton_def max_def)
next
  case Home
  then show ?thesis by (simp add: homeButton_def)
qed

text \<open>
  C5. Starting from a transform whose scale lies in [0.15, 2.0], any sequence of zoom
  operations of \<^verbatim>\<open>main.jsx\<close> (wheel events with any \<^verbatim>\<open>deltaY\<close>, the buttons
  \<^verbatim>\<open>+\<close>, \<^verbatim>\<open>-\<close> and \<^verbatim>\<open>H\<close>) leaves the scale inside [0.15, 2.0].
\<close>

theorem scale_clamping_invariant:
  assumes "0.15 \<le> t_scale (transform s)" and "t_scale (transform s) \<le> 2"
  shows "0.15 \<le> t_scale (transform (apply_zooms zs s)) \<and> t_scale (transform (apply_zooms zs s)) \<le> 2"
  using assms
proof (induction zs arbitrary: s)
  case Nil
  then show ?case by simp
next
  case (Cons z zs)
  have "0.15 \<le> t_scale (transform (apply_zoom z s)) \<and> t_scale (transform (apply_zoom z s)) \<le> 2"
    using Cons.prems by (rule apply_zoom_scale_range)
  then show ?case using Cons.IH [of "apply_zoom z s"] by simp
qed

theorem scale_clamping_invariant_witness:
  "0.15 \<le> t_scale (transform initial_state) \<and> t_scale (transform initial_state) \<le> 2 \<and>
   0.15 \<le> t_scale (transform (apply_zooms [ZoomIn, Wheel (-3), ZoomOut, Home, Wheel 5] initial_state)) \<and>
   t_scale (transform (apply_zooms [ZoomIn, Wheel (-3), ZoomOut, Home, Wheel 5] initial_state)) \<le> 2"
proof -
  have lo: "0.15 \<le> t_scale (transform initial_state)"
    by (simp add: initial_state_def)
  have hi: "t_scale (transform initial_state) \<le> 2"
    by (simp add: initial_state_def)
  show ?thesis
    using lo hi scale_clamping_invariant [OF lo hi, of "[ZoomIn, Wheel (-3), ZoomOut, Home, Wheel 5]"]
    by simp
qed

section \<open>Zoom anchor\<close>

text \<open>
  The template's Ctrl-wheel zoom keeps the world point under the pointer fixed (in exact
  arithmetic, for a non-zero scale).
\<close>

lemma tpl_zoom_anchor:
  assumes "t_scale t \<noteq> 0" and "t_x t = Fin a" and "t_y t = Fin b"
  shows "worldToScreen (tpl_handleWheel True deltaX deltaY p t)
           (screenToWorld t \<lparr>jx = Fin (pos_x p), jy = Fin (pos_y p)\<rparr>)
         = \<lparr>jx = Fin (pos_x p), jy = Fin (pos_y p)\<rparr>"
  using assms
  by (simp add: worldToScreen_def screenToWorld_def tpl_handleWheel_def js_sub_def Let_def field_simps)

text \<open>The wheel handler of \<^verbatim>\<open>main.jsx\<close> never moves the translation.\<close>

lemma handleWheel_keeps_translation:
  "t_x (transform (handleWheel deltaY s)) = t_x (transform s) \<and>
   t_y (transform (handleWheel deltaY s)) = t_y (transform s)"
  by (simp add: handleWheel_def Let_def)

text \<open>
  C1. Zoom-anchor invariance says that after a wheel zoom at screen point \<open>p\<close> the world
  point that was under \<open>p\<close> is still drawn at \<open>p\<close>. The wheel handler of
  \<^verbatim>\<open>main.jsx\<close> writes only the scale: from the initial view (50, 50, 0.45), one
  zoom-in step with the pointer at (500, 350) moves the world point that was under the
  pointer to (545, 380).
\<close>

theorem wheel_zoom_moves_anchor:
  "worldToScreen (transform (handleWheel (-100) initial_state))
     (screenToWorld (transform initial_state) \<lparr>jx = Fin 500, jy = Fin 350\<rparr>)
   = \<lparr>jx = Fin 545, jy = Fin 380\<rparr>"
  by (simp add: worldToScreen_def screenToWorld_def handleWheel_def initial_state_def js_sub_def Let_def)

section \<open>Filter composition\<close>

text \<open>
  C4. Every relationship in the visible edge list has both its \<open>from\<close> and its \<open>to\<close>
  among the ids of the visible nodes, for any nodes, relationships, module filter and
  search term; and with \<open>showRelationships\<close> false the visible edge list is empty.
\<close>

theorem filter_composition:
  "(\<forall>e \<in> set (filteredRelationships (filteredNodes ns m t) showRels rels).
      rel_from e \<in> node_id ` set (filteredNodes ns m t) \<and>
      rel_to e \<in> node_id ` set (filteredNodes ns m t)) \<and>
   filteredRelationships (filteredNodes ns m t) False rels = []"
  by (auto simp add: filteredRelationships_def Let_def)

theorem filter_composition_witness:
  "rel_AB \<in> set (filteredRelationships (filteredNodes ex_nodes ''all'' []) True [rel_AB, rel_AC]) \<and>
   rel_from rel_AB \<in> node_id ` set (filteredNodes ex_nodes ''all'' []) \<and>
   rel_to rel_AB \<in> node_id ` set (filteredNodes ex_nodes ''all'' []) \<and>
   rel_AC \<notin> set (filteredRelationships (filteredNodes ex_nodes ''all'' []) True [rel_AB, rel_AC])"
  using filter_composition [of ex_nodes "''all''" "[]" True "[rel_AB, rel_AC]"]
  by (simp add: filteredRelationships_def filteredNodes_def Object_values_def ex_nodes_def
      matchesModule_def matchesSearch_def node_A_def node_B_def rel_AB_def rel_AC_def)

section \<open>Selecting a scenario\<close>

text \<open>
  C7, as stated, fails: selecting a scenario while node \<open>A\<close> is selected leaves
  \<open>A\<close> selected.
\<close>

theorem select_keeps_selection:
  "selectedNode (selectScenario abc_scenario (initial_state\<lparr>selectedNode := Some ''A''\<rparr>)) \<noteq> None"
  by (simp add: selectScenario_def initial_state_def)

text \<open>
  C7, amended. Selecting a scenario, from any state, makes it the active scenario, resets
  the step to -1 and sets \<open>isAnimating\<close> to false; it leaves the node selection as it
  was. The selection is cleared when the animation is started.
\<close>

theorem select_scenario_resets:
  "animationStep (selectScenario sc s) = -1 \<and> \<not> isAnimating (selectScenario sc s) \<and>
   activeScenario (selectScenario sc s) = Some sc \<and>
   selectedNode (selectScenario sc s) = selectedNode s \<and>
   selectedNode (startAnimation sc s) = None"
  by (simp add: selectScenario_def startAnimation_def Let_def)

section \<open>Scenario termination\<close>

lemma ticks_not_animating: "\<not> isAnimating s \<Longrightarrow> ticks m s = Inr s"
  by (induction m) (simp_all add: tick_def split: option.splits)

lemma ticks_add: "ticks (a + b) s = (case ticks a s of Inl e \<Rightarrow> Inl e | Inr s' \<Rightarrow> ticks b s')"
  by (induction a arbitrary: s) (simp_all split: sum.splits)

lemma tick_advance:
  assumes "activeScenario s = Some sc" and "isAnimating s" and "sc_path sc = Some p"
    and "animationStep s < int (length p) - 1"
  shows "\<exists>s'. tick s = Inr s' \<and> activeScenario s' = Some sc \<and> isAnimating s' \<and>
           animationStep s' = animationStep s + 1"
  using assms by (simp add: tick_def path_length_def Let_def)

lemma tick_finish:
  assumes "activeScenario s = Some sc" and "isAnimating s"
    and "animationStep s \<ge> path_length sc - 1"
  shows "tick s = Inr (s\<lparr>isAnimating := False\<rparr>)"
  using assms by (simp add: tick_def Let_def)

lemma ticks_advance:
  assumes "activeScenario s = Some sc" and "isAnimating s" and "sc_path sc = Some p"
    and "animationStep s + int k \<le> int (length p) - 1"
  shows "\<exists>s'. ticks k s = Inr s' \<and> activeScenario s' = Some sc \<and> isAnimating s' \<and>
           animationStep s' = animationStep s + int k"
  using assms
proof (induction k arbitrary: s)
  case 0
  then show ?case by simp
next
  case (Suc k)
  have "animationStep s < int (length p) - 1" using Suc.prems(4) by simp
  from tick_advance [OF Suc.prems(1,2,3) this]
  obtain s1 where s1: "tick s = Inr s1" "activeScenario s1 = Some sc" "isAnimating s1"
    "animationStep s1 = animationStep s + 1" by blast
  have "animationStep s1 + int k \<le> int (length p) - 1" using s1(4) Suc.prems(4) by simp
  from Suc.IH [OF s1(2,3) Suc.prems(3) this]
  obtain s2 where "ticks k s1 = Inr s2" "activeScenario s2 = Some sc" "isAnimating s2"
    "animationStep s2 = animationStep s1 + int k" by blast
  then show ?case using s1 by simp
qed

lemma startAnimation_fields:
  "activeScenario (startAnimation sc s) = Some sc \<and> isAnimating (startAnimation sc s) \<and>
   animationStep (startAnimation sc s) = 0"
  by (simp add: startAnimation_def Let_def)

text \<open>
  C2, amended. For a scenario whose path has length \<open>N \<ge> 1\<close>: starting the animation
  sets the step to 0 at once; after \<open>k < N\<close> ticks the player is still animating with
  step \<open>k\<close>; after exactly \<open>N\<close> ticks the step is \<open>N - 1\<close> and \<open>isAnimating\<close> is
  false, and any further ticks leave the state as it is.
\<close>

theorem scenario_termination:
  assumes "sc_path sc = Some p" and "p \<noteq> []"
  shows "animationStep (startAnimation sc s) = 0 \<and>
         (\<forall>k < length p. \<exists>s'. ticks k (startAnimation sc s) = Inr s' \<and> isAnimating s' \<and>
              animationStep s' = int k) \<and>
         (\<exists>s'. ticks (length p) (startAnimation sc s) = Inr s' \<and>
              animationStep s' = int (length p) - 1 \<and> \<not> isAnimating s' \<and>
              (\<forall>m. ticks m s' = Inr s'))"
proof (intro conjI allI impI)
  let ?s0 = "startAnimation sc s"
  have f: "activeScenario ?s0 = Some sc" "isAnimating ?s0" "animationStep ?s0 = 0"
    using startAnimation_fields [of sc s] by simp_all
  show "animationStep ?s0 = 0" by (rule f(3))
  show "\<exists>s'. ticks k ?s0 = Inr s' \<and> isAnimating s' \<and> animationStep s' = int k"
    if "k < length p" for k
  proof -
    have "animationStep ?s0 + int k \<le> int (length p) - 1" using that f(3) by simp
    from ticks_advance [OF f(1,2) assms(1) this] show ?thesis using f(3) by auto
  qed
  show "\<exists>s'. ticks (length p) ?s0 = Inr s' \<and> animationStep s' = int (length p) - 1 \<and>
          \<not> isAnimating s' \<and> (\<forall>m. ticks m s' = Inr s')"
  proof -
    obtain n where n: "length p = Suc n" using assms(2) by (cases p) auto
    have "animationStep ?s0 + int n \<le> int (length p) - 1" using n f(3) by simp
    from ticks_advance [OF f(1,2) assms(1) this]
    obtain s1 where s1: "ticks n ?s0 = Inr s1" "activeScenario s1 = Some sc" "isAnimating s1"
      "animationStep s1 = int n" using f(3) by auto
    have "animationStep s1 \<ge> path_length sc - 1"
      using s1(4) n assms(1) by (simp add: path_length_def)
    from tick_finish [OF s1(2,3) this] have t: "tick s1 = Inr (s1\<lparr>isAnimating := False\<rparr>)" .
    have "ticks (n + 1) ?s0 = Inr (s1\<lparr>isAnimating := False\<rparr>)"
      unfolding ticks_add using s1(1) t by simp
    moreover have "\<forall>m. ticks m (s1\<lparr>isAnimating := False\<rparr>) = Inr (s1\<lparr>isAnimating := False\<rparr>)"
      by (simp add: ticks_not_animating)
    ultimately show ?thesis using n s1(4) by auto
  qed
qed

text \<open>
  The path \<open>[A, B, C]\<close>: three ticks after the start the step is 2 and the animation
  has stopped.
\<close>

theorem scenario_termination_witness:
  "sc_path abc_scenario = Some [''A'', ''B'', ''C''] \<and> [''A'', ''B'', ''C''] \<noteq> [] \<and>
   (\<exists>s'. ticks (length [''A'', ''B'', ''C'']) (startAnimation abc_scenario initial_state) = Inr s' \<and>
      animationStep s' = int (length [''A'', ''B'', ''C'']) - 1 \<and> \<not> isAnimating s')"
proof -
  have p: "sc_path abc_scenario = Some [''A'', ''B'', ''C'']" by (simp add: abc_scenario_def)
  have ne: "[''A'', ''B'', ''C''] \<noteq> []" by simp
  show ?thesis using p ne scenario_termination [OF p ne, of initial_state] by blast
qed

text \<open>
  C2, as stated, fails. On a scenario with an empty path (\<open>N = 0\<close>), after the start and
  0 ticks the step is 0, not \<open>N - 1 = -1\<close>, and the player is still animating. And the
  ticker never sees the step -1: on the path \<open>[A, B, C]\<close> the step is 0 as soon as the
  animation is started.
\<close>

theorem scenario_termination_counterexample:
  "ticks (length ([] :: string list)) (startAnimation empty_scenario initial_state)
     = Inr (startAnimation empty_scenario initial_state) \<and>
   sc_path empty_scenario = Some [] \<and>
   animationStep (startAnimation empty_scenario initial_state) \<noteq> int (length ([] :: string list)) - 1 \<and>
   isAnimating (startAnimation empty_scenario initial_state) \<and>
   animationStep (startAnimation abc_scenario initial_state) \<noteq> -1"
  by (simp add: startAnimation_def empty_scenario_def abc_scenario_def initial_state_def
      path_at_def js_index_def js_key_def js_get_def object_prototype_members_def Let_def)

section \<open>The concrete scenario trace\<close>

text \<open>
  C6, as stated, fails. For the path \<open>[A, B, C]\<close>, after the start and exactly two
  ticks the step is not 1, the edge \<open>(B, C)\<close> is not active and the player is still
  animating.
\<close>

theorem abc_trace_counterexample:
  "(case ticks (Suc (Suc 0)) (startAnimation abc_scenario initial_state) of
      Inl e \<Rightarrow> False
    | Inr s \<Rightarrow> animationStep s \<noteq> 1 \<and> \<not> isEdgeActive s ''B'' ''C'' \<and> isAnimating s)"
  by (simp add: startAnimation_def abc_scenario_def initial_state_def tick_def
      path_at_def path_length_def js_index_def js_key_def js_get_def object_prototype_members_def
      isEdgeActive_def Let_def)

lemma abc_queries_step1:
  assumes "activeScenario s = Some abc_scenario" and "animationStep s = 1"
  shows "isNodeCurrent s ''B'' \<and> isEdgeActive s ''B'' ''C'' \<and> isNodeVisited s ''A''"
  using assms
  by (simp add: abc_scenario_def path_at_def path_length_def js_index_def isEdgeActive_def
      isNodeCurrent_def isNodeVisited_def Let_def)

lemma abc_queries_step2:
  assumes "activeScenario s = Some abc_scenario" and "animationStep s = 2"
  shows "isNodeCurrent s ''C'' \<and> \<not> isEdgeActive s ''B'' ''C'' \<and> isNodeVisited s ''A''"
  using assms
  by (simp add: abc_scenario_def path_at_def path_length_def js_index_def isEdgeActive_def
      isNodeCurrent_def isNodeVisited_def Let_def)

text \<open>
  C6, amended. For the scenario with path \<open>[A, B, C]\<close>, started from any state: after
  exactly one tick the step is 1, \<open>B\<close> is current, the edge \<open>(B, C)\<close> is active and
  \<open>A\<close> is visited; after exactly two ticks the step is 2, \<open>C\<close> is current,
  \<open>(B, C)\<close> is no longer active, \<open>A\<close> is visited and the player is still animating;
  the third tick leaves all that and sets \<open>isAnimating\<close> to false.
\<close>

theorem abc_trace:
  "(case ticks (Suc 0) (startAnimation abc_scenario s) of
      Inl e \<Rightarrow> False
    | Inr s1 \<Rightarrow> animationStep s1 = 1 \<and> isNodeCurrent s1 ''B'' \<and> isEdgeActive s1 ''B'' ''C'' \<and>
        isNodeVisited s1 ''A'' \<and> isAnimating s1) \<and>
   (case ticks (Suc (Suc 0)) (startAnimation abc_scenario s) of
      Inl e \<Rightarrow> False
    | Inr s2 \<Rightarrow> animationStep s2 = 2 \<and> isNodeCurrent s2 ''C'' \<and> \<not> isEdgeActive s2 ''B'' ''C'' \<and>
        isNodeVisited s2 ''A'' \<and> isAnimating s2) \<and>
   (case ticks (Suc (Suc (Suc 0))) (startAnimation abc_scenario s) of
      Inl e \<Rightarrow> False
    | Inr s3 \<Rightarrow> animationStep s3 = 2 \<and> isNodeCurrent s3 ''C'' \<and> \<not> isEdgeActive s3 ''B'' ''C'' \<and>
        isNodeVisited s3 ''A'' \<and> \<not> isAnimating s3)"
proof -
  let ?s0 = "startAnimation abc_scenario s"
  have f: "activeScenario ?s0 = Some abc_scenario" "isAnimating ?s0" "animationStep ?s0 = 0"
    using startAnimation_fields [of abc_scenario s] by simp_all
  have p: "sc_path abc_scenario = Some [''A'', ''B'', ''C'']" by (simp add: abc_scenario_def)
  have "animationStep ?s0 + int (Suc 0) \<le> int (length [''A'', ''B'', ''C'']) - 1"
    using f(3) by simp
  from ticks_advance [OF f(1,2) p this]
  obtain s1 where s1: "ticks (Suc 0) ?s0 = Inr s1" "activeScenario s1 = Some abc_scenario"
    "isAnimating s1" "animationStep s1 = 1" using f(3) by auto
  have "animationStep ?s0 + int (Suc (Suc 0)) \<le> int (length [''A'', ''B'', ''C'']) - 1"
    using f(3) by simp
  from ticks_advance [OF f(1,2) p this]
  obtain s2 where s2: "ticks (Suc (Suc 0)) ?s0 = Inr s2" "activeScenario s2 = Some abc_scenario"
    "isAnimating s2" "animationStep s2 = 2" using f(3) by auto
  have "animationStep s2 \<ge> path_length abc_scenario - 1"
    using s2(4) p by (simp add: path_length_def)
  from tick_finish [OF s2(2,3) this] have t: "tick s2 = Inr (s2\<lparr>isAnimating := False\<rparr>)" .
  have "ticks (Suc (Suc 0) + Suc 0) ?s0 = Inr (s2\<lparr>isAnimating := False\<rparr>)"
    unfolding ticks_add using s2(1) t by simp
  then have s3: "ticks (Suc (Suc (Suc 0))) ?s0 = Inr (s2\<lparr>isAnimating := False\<rparr>)" by simp
  have q3: "activeScenario (s2\<lparr>isAnimating := False\<rparr>) = Some abc_scenario"
    "animationStep (s2\<lparr>isAnimating := False\<rparr>) = 2" using s2 by simp_all
  show ?thesis
    using s1 s2 s3 abc_queries_step1 [OF s1(2,4)] abc_queries_step2 [OF s2(2,4)]
      abc_queries_step2 [OF q3]
    by simp
qed

section \<open>Tick frame effect\<close>

text \<open>
  The step is never below -1: that holds initially, every handler that writes the step
  establishes it, and a tick preserves it.
\<close>

lemma animationStep_lower_bound:
  "- 1 \<le> animationStep initial_state"
  "- 1 \<le> animationStep (selectScenario sc s)"
  "- 1 \<le> animationStep (startAnimation sc s)"
  "- 1 \<le> animationStep (stopAnimation s)"
  "- 1 \<le> animationStep (resetStep s)"
  "- 1 \<le> animationStep (resetView s)"
  by (simp_all add: initial_state_def selectScenario_def startAnimation_def stopAnimation_def
      resetStep_def resetView_def Let_def)

lemma tick_preserves_lower_bound:
  assumes "- 1 \<le> animationStep s" and "tick s = Inr s'"
  shows "- 1 \<le> animationStep s'"
  using assms
  by (auto simp add: tick_def Let_def split: option.splits if_splits)

lemma tick_keeps_scale:
  assumes "tick s = Inr s'"
  shows "t_scale (transform s') = t_scale (transform s)"
  using assms
  by (auto simp add: tick_def recenter_def Let_def split: option.splits if_splits)

lemma tick_no_error:
  assumes "- 1 \<le> animationStep s"
  shows "\<exists>s'. tick s = Inr s'"
  using assms
  by (auto simp add: tick_def path_length_def Let_def split: option.splits)

text \<open>
  For a next path node without a stored position whose id is not the name of a member of
  \<^verbatim>\<open>Object.prototype\<close>, the tick only advances the step.
\<close>

lemma tick_unpositioned_node:
  assumes "isAnimating s" and "activeScenario s = Some sc" and "sc_path sc = Some p"
    and "animationStep s < int (length p) - 1"
    and "positions s (js_key (js_index p (animationStep s + 1))) = None"
    and "js_key (js_index p (animationStep s + 1)) \<notin> set object_prototype_members"
  shows "tick s = Inr (s\<lparr>animationStep := animationStep s + 1\<rparr>)"
  using assms
  by (simp add: tick_def path_length_def js_get_def Let_def)

text \<open>
  For a next path node without a stored position whose id is such a name, the guard
  passes on the inherited member and the tick writes \<^verbatim>\<open>NaN\<close> into \<open>x\<close> and \<open>y\<close>.
\<close>

lemma tick_inherited_member:
  assumes "isAnimating s" and "activeScenario s = Some sc" and "sc_path sc = Some p"
    and "animationStep s < int (length p) - 1"
    and "positions s (js_key (js_index p (animationStep s + 1))) = None"
    and "js_key (js_index p (animationStep s + 1)) \<in> set object_prototype_members"
  shows "tick s = Inr (s\<lparr>animationStep := animationStep s + 1,
                          transform := (transform s)\<lparr>t_x := NaN, t_y := NaN\<rparr>\<rparr>)"
  using assms
  by (simp add: tick_def path_length_def js_get_def recenter_def prop_x_def prop_y_def
      to_number_def Let_def)

text \<open>
  C8. The tick frame effect says that a tick whose new current path node has no recorded
  position leaves the transform entirely unchanged. The guard \<^verbatim>\<open>if (pos)\<close> of the
  ticker tests \<^verbatim>\<open>positions[nextNode]\<close>, which for the path entry
  \<^verbatim>\<open>constructor\<close> is the inherited member of \<^verbatim>\<open>Object.prototype\<close>: on the journey
  \<open>[A, constructor]\<close> with no positions stored, the first tick advances the step to 1
  and sets \<open>x\<close> and \<open>y\<close> of the transform to \<^verbatim>\<open>NaN\<close>; the scale stays 0.45.
\<close>

theorem tick_inherited_position_nan:
  "positions (startAnimation ctor_scenario initial_state) ''constructor'' = None \<and>
   transform (startAnimation ctor_scenario initial_state)
     = \<lparr>t_x = Fin 50, t_y = Fin 50, t_scale = 0.45\<rparr> \<and>
   tick (startAnimation ctor_scenario initial_state)
     = Inr ((startAnimation ctor_scenario initial_state)
              \<lparr>animationStep := 1, transform := \<lparr>t_x = NaN, t_y = NaN, t_scale = 0.45\<rparr>\<rparr>)"
  by (simp add: startAnimation_def ctor_scenario_def initial_state_def tick_def
      path_at_def path_length_def js_index_def js_key_def js_get_def object_prototype_members_def
      recenter_def prop_x_def prop_y_def to_number_def Let_def)

section \<open>Drag round trip\<close>

text \<open>
  C3. For a node id with a recorded position \<open>p0\<close>: entering position edit and dragging
  the node by the screen delta \<open>(dx, dy)\<close> succeeds at any scale and moves the node by
  the delta divided by the scale. Cancelling afterwards restores the position map exactly
  (so the node is at \<open>p0\<close> again) and ends the edit session. Saving with a failing save
  call restores the position map exactly as well, shows an error toast and ends the edit
  session. Node ids are non-empty strings: \<^verbatim>\<open>loadData\<close> keeps a node only
  \<^verbatim>\<open>if (n?.id)\<close>, and the handlers test the id for truthiness.
\<close>

theorem drag_round_trip:
  assumes "positions s nodeId = Some p0" and "nodeId \<noteq> []"
  shows "\<exists>s'. dragNodeBy nodeId mx my dx dy s = Inr s' \<and>
           (t_scale (transform s) \<noteq> 0 \<longrightarrow>
              positions s' nodeId = Some \<lparr>pos_x = pos_x p0 + dx / t_scale (transform s),
                                          pos_y = pos_y p0 + dy / t_scale (transform s)\<rparr>) \<and>
           positions (cancelEditPosition s') nodeId = Some p0 \<and>
           positions (cancelEditPosition s') = positions s \<and>
           editingPositionNode (cancelEditPosition s') = None \<and>
           editingPositionOriginal (cancelEditPosition s') = None \<and>
           nodeDragStart (cancelEditPosition s') = None \<and>
           positions (saveEditPosition (ApiError msg) s') nodeId = Some p0 \<and>
           positions (saveEditPosition (ApiError msg) s') = positions s \<and>
           toast (saveEditPosition (ApiError msg) s')
             = Some \<lparr>toast_message = ''Failed to save position: '' @ msg, toast_type = ''error''\<rparr> \<and>
           editingPositionNode (saveEditPosition (ApiError msg) s') = None \<and>
           editingPositionOriginal (saveEditPosition (ApiError msg) s') = None \<and>
           nodeDragStart (saveEditPosition (ApiError msg) s') = None"
  using assms
  by (simp add: dragNodeBy_def startEditPosition_def handleNodeDragStart_def handleMouseMove_def
      handleNodeDragMove_def handleMouseUp_def handleNodeDragEnd_def cancelEditPosition_def
      revertPosition_def clearEditSession_def saveEditPosition_def truthy_def js_get_def Let_def
      map_upd_triv)

text \<open>
  Node \<open>A\<close> at (100, 200), dragged by (9, -18) on screen at scale 0.45, is at
  (120, 160); cancel and a failed save both put it back at (100, 200).
\<close>

theorem drag_round_trip_witness:
  "positions (initial_state\<lparr>positions := only_A_positioned\<rparr>) ''A'' = Some \<lparr>pos_x = 100, pos_y = 200\<rparr> \<and>
   ''A'' \<noteq> [] \<and>
   (\<exists>s'. dragNodeBy ''A'' 10 20 9 (-18) (initial_state\<lparr>positions := only_A_positioned\<rparr>) = Inr s' \<and>
      positions s' ''A'' = Some \<lparr>pos_x = 120, pos_y = 160\<rparr> \<and>
      positions (cancelEditPosition s') ''A'' = Some \<lparr>pos_x = 100, pos_y = 200\<rparr> \<and>
      positions (saveEditPosition (ApiError ''API error 500'') s') ''A'' = Some \<lparr>pos_x = 100, pos_y = 200\<rparr> \<and>
      editingPositionNode (cancelEditPosition s') = None \<and>
      editingPositionNode (saveEditPosition (ApiError ''API error 500'') s') = None)"
proof -
  let ?s = "initial_state\<lparr>positions := only_A_positioned\<rparr>"
  have h1: "positions ?s ''A'' = Some \<lparr>pos_x = 100, pos_y = 200\<rparr>"
    by (simp add: only_A_positioned_def)
  have h2: "''A'' \<noteq> []" by simp
  have sc: "t_scale (transform ?s) = 0.45" by (simp add: initial_state_def)
  from drag_round_trip [OF h1 h2, of 10 20 9 "-18" "''API error 500''"]
  obtain s' where s': "dragNodeBy ''A'' 10 20 9 (-18) ?s = Inr s'"
    "positions s' ''A'' = Some \<lparr>pos_x = 120, pos_y = 160\<rparr>"
    "positions (cancelEditPosition s') ''A'' = Some \<lparr>pos_x = 100, pos_y = 200\<rparr>"
    "positions (saveEditPosition (ApiError ''API error 500'') s') ''A'' = Some \<lparr>pos_x = 100, pos_y = 200\<rparr>"
    "editingPositionNode (cancelEditPosition s') = None"
    "editingPositionNode (saveEditPosition (ApiError ''API error 500'') s') = None"
    unfolding sc by auto
  then show ?thesis using h1 h2 by blast
qed

section \<open>Rendering with missing positions\<close>

text \<open>
  A relationship with an end point, or a node, that has no entry in the positions map and
  whose id is not the name of a member of \<^verbatim>\<open>Object.prototype\<close> is skipped.
\<close>

lemma renderEdge_missing_position:
  assumes "(poss (rel_from rel) = None \<and> rel_from rel \<notin> set object_prototype_members) \<or>
           (poss (rel_to rel) = None \<and> rel_to rel \<notin> set object_prototype_members)"
  shows "renderEdge poss ns rel = None"
  using assms by (auto simp add: renderEdge_def js_get_def Let_def)

lemma renderNode_missing_position:
  assumes "positions s (node_id n) = None" and "node_id n \<notin> set object_prototype_members"
  shows "renderNode s rels n = None"
  using assms by (simp add: renderNode_def js_get_def Let_def)

text \<open>
  C10. Rendering totality for missing positions says that a visible node without an entry
  in the positions map, and a visible edge with such an end point, is skipped. The guards
  \<^verbatim>\<open>if (!pos)\<close> and \<^verbatim>\<open>if (!fromPos || !toPos)\<close> test
  \<^verbatim>\<open>positions[id]\<close>, which for the id \<^verbatim>\<open>constructor\<close> is the inherited member
  of \<^verbatim>\<open>Object.prototype\<close>. With nodes \<open>A\<close> and \<open>constructor\<close> loaded, the edge
  between them visible and only \<open>A\<close> positioned, the node \<open>constructor\<close> is emitted
  with the translation \<^verbatim>\<open>translate(undefined, undefined)\<close> and the edge with
  \<^verbatim>\<open>NaN\<close> in every coordinate.
\<close>

theorem inherited_position_rendered:
  "node_ctor \<in> set (filteredNodes ctor_nodes ''all'' []) \<and>
   rel_A_ctor \<in> set (filteredRelationships (filteredNodes ctor_nodes ''all'' []) True [rel_A_ctor]) \<and>
   only_A_positioned (node_id node_ctor) = None \<and>
   only_A_positioned (rel_to rel_A_ctor) = None \<and>
   renderNode (initial_state\<lparr>positions := only_A_positioned\<rparr>) [rel_A_ctor] node_ctor
     = Some \<lparr>translateX = None, translateY = None, isSelected = False, isHovered = False,
             isConnected = False, inPath = False, isCurrent = False, isEditingPos = False\<rparr> \<and>
   renderEdge only_A_positioned ctor_nodes rel_A_ctor
     = Some \<lparr>dirX = NaN, dirY = NaN, startX = NaN, startY = NaN, endX = NaN, endY = NaN,
             labelX = NaN, labelY = NaN\<rparr>"
  by (simp add: filteredRelationships_def filteredNodes_def Object_values_def ctor_nodes_def
      matchesModule_def matchesSearch_def node_A_def node_ctor_def rel_A_ctor_def
      only_A_positioned_def initial_state_def renderNode_def renderEdge_def js_get_def
      object_prototype_members_def prop_x_def prop_y_def to_number_def js_sub_def js_or_def
      is_zero_def edgeOffset_def isNodeInPath_def isNodeCurrent_def Let_def)

section \<open>Degenerate geometry\<close>

text \<open>
  C9. Degenerate-geometry safety asks that an edge between two nodes at the same point
  has no \<^verbatim>\<open>NaN\<close> in its geometry. The template divides by the unguarded length:
  for two nodes at its default position (800, 500) and one edge between them, the control
  point and both end points are \<^verbatim>\<open>NaN\<close>.
\<close>

theorem tpl_coincident_nan:
  "tpl_renderEdge (nodePositions ex_nodes coincident_positions) ex_nodes
      (filteredRelationships (filteredNodes ex_nodes ''all'' []) True [rel_AB]) 0
    = Some \<lparr>ctrlX = NaN, ctrlY = NaN, startPointX = NaN, startPointY = NaN,
            endPointX = NaN, endPointY = NaN\<rparr>"
  by (simp add: tpl_renderEdge_def nodePositions_def Object_keys_def coincident_positions_def
      filteredRelationships_def filteredNodes_def Object_values_def ex_nodes_def
      matchesModule_def matchesSearch_def node_A_def node_B_def rel_AB_def isParallel_def
      tpl_anchorOffset_def js_get_def prop_x_def prop_y_def to_number_def js_sub_def Let_def)

text \<open>
  The same holds in the template for any edge whose end points have coincident positions,
  whatever the node types and the parallel edges.
\<close>

lemma tpl_renderEdge_coincident_nan:
  assumes "nodePoss (rel_from (frels ! index)) = Some a"
    and "nodePoss (rel_to (frels ! index)) = Some b"
    and "pos_x a = pos_x b" and "pos_y a = pos_y b"
  shows "tpl_renderEdge nodePoss ns frels index
           = Some \<lparr>ctrlX = NaN, ctrlY = NaN, startPointX = NaN, startPointY = NaN,
                   endPointX = NaN, endPointY = NaN\<rparr>"
  using assms
  by (simp add: tpl_renderEdge_def js_get_def prop_x_def prop_y_def to_number_def js_sub_def Let_def)

text \<open>
  The renderer of \<^verbatim>\<open>main.jsx\<close> has the fallback \<^verbatim>\<open>|| 1\<close>: for coincident
  end points the direction is (0, 0) and the line collapses to the common point.
\<close>

lemma renderEdge_coincident_no_nan:
  assumes "poss (rel_from rel) = Some a" and "poss (rel_to rel) = Some b"
    and "pos_x a = pos_x b" and "pos_y a = pos_y b"
  shows "\<exists>g. renderEdge poss ns rel = Some g \<and> \<not> geometry_has_nan g \<and>
           dirX g = Fin 0 \<and> dirY g = Fin 0 \<and>
           startX g = Fin (pos_x a) \<and> startY g = Fin (pos_y a) \<and>
           endX g = Fin (pos_x b) \<and> endY g = Fin (pos_y b)"
proof -
  have off: "\<exists>r. edgeOffset n = Fin r" for n
    by (simp add: edgeOffset_def split: js_prop.splits)
  obtain r1 where r1: "edgeOffset (js_get (map_of ns) (rel_from rel)) = Fin r1" using off by blast
  obtain r2 where r2: "edgeOffset (js_get (map_of ns) (rel_to rel)) = Fin r2" using off by blast
  have g: "js_get poss (rel_from rel) = Own a" "js_get poss (rel_to rel) = Own b"
    using assms(1,2) by (simp_all add: js_get_def)
  show ?thesis
    using assms(3,4) g r1 r2
    by (simp add: renderEdge_def geometry_has_nan_def is_nan_def prop_x_def prop_y_def to_number_def
        js_sub_def js_or_def is_zero_def Let_def)
qed

end
